theory Spec2Isabelle
  imports Complex_Main "HOL-Library.Log_Nat"
begin

section \<open>Python values, errors and the object store\<close>

text \<open>
  \<^verbatim>\<open>atomium/structures/molecules.py\<close> defines the class \<open>AtomicStructure\<close>. Its
  methods receive arbitrary Python objects, keep their atoms in a mutable \<open>set\<close> object and
  change the coordinates of shared \<open>Atom\<close> objects in place. The embedding therefore has
  a small universe of Python values, an explicit store of objects addressed by references,
  and results that pair the store after the call with either the raised exception or the
  returned value.
\<close>

type_synonym ref = nat

datatype pyval = PyNone | PyInt int | PyStr string | PyAtom ref

text \<open>
  The exception classes. \<open>TypeError\<close> and \<open>KeyError\<close> carry the object their message is
  built from. \<open>NoAtomsError\<close> is the dedicated empty-structure exception that
  \<^verbatim>\<open>tests/test_atomic_structures.py\<close> imports.
\<close>

datatype error = TypeError pyval | ValueError | KeyError pyval | IndexError | NoAtomsError

text \<open>
  Modelled from the spec: the class \<open>Atom\<close> (module \<^verbatim>\<open>atomium/structures/atoms.py\<close>) is
  not among the sources. The spec gives an atom an element symbol and three coordinates;
  \<open>translate\<close> and \<open>rotate\<close> assign the attributes \<^verbatim>\<open>_x\<close>, \<^verbatim>\<open>_y\<close>, \<^verbatim>\<open>_z\<close>. The type
  \<open>'c\<close> of a coordinate is left open: this module only moves coordinates around.
\<close>

record 'c atom_obj =
  element_attr :: string
  x_attr :: 'c
  y_attr :: 'c
  z_attr :: 'c

text \<open>
  The store: the \<open>Atom\<close> object behind every atom reference, the contents of every \<open>set\<close>
  object (in iteration order, without repetition), and the next free reference for a new
  \<open>set\<close> object. Atoms are members of a set by identity, that is by reference; the order
  in which Python iterates over a set is not specified, and no property below depends on
  the order that the lists of this store fix.
\<close>

record 'c heap =
  atom_store :: "ref \<Rightarrow> 'c atom_obj"
  set_store :: "ref \<Rightarrow> ref list"
  set_next :: ref

text \<open>An \<open>AtomicStructure\<close> object has one attribute, \<^verbatim>\<open>_atoms\<close>, a reference to a \<open>set\<close>.\<close>

record AtomicStructure =
  atoms_attr :: ref

type_synonym ('c, 'a) outcome = "'c heap \<times> (error + 'a)"

subsection \<open>The built-in \<open>set\<close>\<close>

text \<open>\<^verbatim>\<open>set(iterable)\<close> allocates a new set object.\<close>

definition set_new :: "'c heap \<Rightarrow> ref list \<Rightarrow> 'c heap \<times> ref" where
  "set_new h xs =
     (h\<lparr>set_store := (set_store h)(set_next h := remdups xs), set_next := Suc (set_next h)\<rparr>,
      set_next h)"

text \<open>\<^verbatim>\<open>s.add(x)\<close> and \<^verbatim>\<open>s.remove(x)\<close>; the latter raises \<open>KeyError\<close> for a non-member.\<close>

definition set_add :: "'c heap \<Rightarrow> ref \<Rightarrow> ref \<Rightarrow> 'c heap" where
  "set_add h s x =
     (if x \<in> set (set_store h s) then h
      else h\<lparr>set_store := (set_store h)(s := set_store h s @ [x])\<rparr>)"

definition set_remove :: "'c heap \<Rightarrow> ref \<Rightarrow> ref \<Rightarrow> ('c, unit) outcome" where
  "set_remove h s x =
     (if x \<in> set (set_store h s)
      then (h\<lparr>set_store := (set_store h)(s := removeAll x (set_store h s))\<rparr>, Inr ())
      else (h, Inl (KeyError (PyAtom x))))"

subsection \<open>Floating-point numbers\<close>

text \<open>
  Python's \<open>float\<close> is the IEEE 754 double. A finite double is \<open>m * 2 ^ e\<close> for integers
  \<open>m\<close> and \<open>e\<close> with \<open>\<bar>m\<bar> < 2 ^ 53\<close>; \<open>Double m e\<close> stands for it, and one double may
  have several such pairs. The range of the exponent is not bounded here, so there is no
  overflow, underflow, infinity or NaN: atomic masses and coordinates are far from them.
\<close>

datatype double = Double int int

definition dval :: "double \<Rightarrow> real" where
  "dval d = (case d of Double m e \<Rightarrow> of_int m * 2 powi e)"


text \<open>
  Rounding to the nearest double, ties to the even mantissa, as every arithmetic operation
  on floats does: \<open>round_mantissa M k\<close> rounds \<open>M / 2 ^ k\<close> to an integer, and
  \<open>round_to_double M e\<close> is the double nearest to \<open>M * 2 ^ e\<close>, which keeps the 53 leading
  bits of \<open>M\<close>.
\<close>

definition round_mantissa :: "int \<Rightarrow> nat \<Rightarrow> int" where
  "round_mantissa M k =
     (let q = M div 2 ^ k; r = M mod 2 ^ k in
      if 2 * r > 2 ^ k \<or> (2 * r = 2 ^ k \<and> odd q) then q + 1 else q)"

definition round_to_double :: "int \<Rightarrow> int \<Rightarrow> double" where
  "round_to_double M e =
     (let b = bitlen \<bar>M\<bar> in
      if b \<le> 53 then Double M e
      else
        (let k = nat (b - 53); q = round_mantissa M k in
         if \<bar>q\<bar> = 2 ^ 53 then Double (q div 2) (e + int k + 1)
         else Double q (e + int k)))"

text \<open>\<^verbatim>\<open>x + y\<close> on floats: the exact sum, rounded. \<^verbatim>\<open>-x\<close> is exact.\<close>

definition fadd :: "double \<Rightarrow> double \<Rightarrow> double" where
  "fadd x y =
     (case x of Double m1 e1 \<Rightarrow> case y of Double m2 e2 \<Rightarrow>
        (let e = min e1 e2 in
         round_to_double (m1 * 2 ^ nat (e1 - e) + m2 * 2 ^ nat (e2 - e)) e))"


section \<open>AtomicStructure\<close>

fun isinstance_Atom :: "pyval \<Rightarrow> bool" where
  "isinstance_Atom (PyAtom r) = True"
| "isinstance_Atom v = False"

fun atom_refs :: "pyval list \<Rightarrow> ref list" where
  "atom_refs [] = []"
| "atom_refs (PyAtom r # vs) = r # atom_refs vs"
| "atom_refs (v # vs) = atom_refs vs"

text \<open>
  \<^verbatim>\<open>
  def __init__(self, *atoms):
      if not all(isinstance(atom, Atom) for atom in atoms):
          non_atoms = [atom for atom in atoms if not isinstance(atom, Atom)]
          raise TypeError(
           "AtomicStructures need atoms, not '{}'".format(non_atoms[0])
          )
      self._atoms = set(atoms)
  \<close>
\<close>

definition AtomicStructure_init :: "'c heap \<Rightarrow> pyval list \<Rightarrow> ('c, AtomicStructure) outcome" where
  "AtomicStructure_init h atoms =
     (if \<not> list_all isinstance_Atom atoms then
        (let non_atoms = filter (\<lambda>atom. \<not> isinstance_Atom atom) atoms
         in case non_atoms of
              [] \<Rightarrow> (h, Inl IndexError)
            | v # vs \<Rightarrow> (h, Inl (TypeError v)))
      else
        (case set_new h (atom_refs atoms) of
           (h', r) \<Rightarrow> (h', Inr \<lparr>atoms_attr = r\<rparr>)))"

text \<open>\<^verbatim>\<open>def __contains__(self, member): return member in self._atoms\<close>\<close>

definition AtomicStructure_contains :: "'c heap \<Rightarrow> AtomicStructure \<Rightarrow> pyval \<Rightarrow> bool" where
  "AtomicStructure_contains h self member =
     (case member of
        PyAtom r \<Rightarrow> r \<in> set (set_store h (atoms_attr self))
      | _ \<Rightarrow> False)"

text \<open>The truth value of an object, as \<^verbatim>\<open>if element:\<close> takes it.\<close>

fun truthy :: "pyval \<Rightarrow> bool" where
  "truthy PyNone = False"
| "truthy (PyInt i) = (i \<noteq> 0)"
| "truthy (PyStr s) = (s \<noteq> [])"
| "truthy (PyAtom r) = True"

text \<open>
  Modelled from the spec: \<open>Atom.element()\<close> (class \<open>Atom\<close>, not among the sources) returns
  the atom's element symbol.
\<close>

definition Atom_element :: "'c heap \<Rightarrow> ref \<Rightarrow> string" where
  "Atom_element h a = element_attr (atom_store h a)"

text \<open>
  \<^verbatim>\<open>
  def atoms(self, element=None):
      atoms = set(self._atoms)
      if element:
          atoms = set(filter(lambda a: a.element() == element, atoms))
      return atoms
  \<close>
  The result is the reference of the set object returned.
\<close>

definition AtomicStructure_atoms :: "'c heap \<Rightarrow> AtomicStructure \<Rightarrow> pyval \<Rightarrow> ('c, ref) outcome" where
  "AtomicStructure_atoms h self element =
     (case set_new h (set_store h (atoms_attr self)) of
        (h1, atoms) \<Rightarrow>
          if truthy element then
            (case set_new h1 (filter (\<lambda>a. PyStr (Atom_element h1 a) = element) (set_store h1 atoms)) of
               (h2, atoms') \<Rightarrow> (h2, Inr atoms'))
          else (h1, Inr atoms))"

text \<open>
  A call that passes the selector by keyword. Python binds the keyword against the
  signature \<^verbatim>\<open>atoms(self, element=None)\<close>: any other name is rejected with a
  \<open>TypeError\<close> before the body runs.
\<close>

definition AtomicStructure_atoms_kw ::
    "'c heap \<Rightarrow> AtomicStructure \<Rightarrow> string \<Rightarrow> pyval \<Rightarrow> ('c, ref) outcome" where
  "AtomicStructure_atoms_kw h self kw v =
     (if kw = ''element'' then AtomicStructure_atoms h self v
      else (h, Inl (TypeError (PyStr kw))))"

text \<open>
  \<^verbatim>\<open>
  def add_atom(self, atom):
      if not isinstance(atom, Atom):
          raise TypeError("Can only add atoms, not '{}'".format(atom))
      self._atoms.add(atom)

  def remove_atom(self, atom):
      self._atoms.remove(atom)
  \<close>
\<close>

definition add_atom :: "'c heap \<Rightarrow> AtomicStructure \<Rightarrow> pyval \<Rightarrow> ('c, unit) outcome" where
  "add_atom h self atom =
     (case atom of
        PyAtom r \<Rightarrow> (set_add h (atoms_attr self) r, Inr ())
      | _ \<Rightarrow> (h, Inl (TypeError atom)))"

definition remove_atom :: "'c heap \<Rightarrow> AtomicStructure \<Rightarrow> pyval \<Rightarrow> ('c, unit) outcome" where
  "remove_atom h self atom =
     (case atom of
        PyAtom r \<Rightarrow> set_remove h (atoms_attr self) r
      | _ \<Rightarrow> (h, Inl (KeyError atom)))"


text \<open>
  The built-in \<^verbatim>\<open>sum\<close>: it starts from \<open>0\<close> and adds the items from left to right, each
  addition a float addition (adding a float to the integer \<open>0\<close> it starts from gives that
  float).
\<close>

definition py_sum :: "double list \<Rightarrow> double" where
  "py_sum xs = foldl fadd (Double 0 0) xs"


text \<open>\<^verbatim>\<open>atom._x, atom._y, atom._z = point\<close>\<close>

definition set_xyz :: "'c heap \<Rightarrow> ref \<Rightarrow> 'c \<times> 'c \<times> 'c \<Rightarrow> 'c heap" where
  "set_xyz h atom point =
     (case point of
        (x, y, z) \<Rightarrow>
          h\<lparr>atom_store := (atom_store h)
               (atom := (atom_store h atom)\<lparr>x_attr := x, y_attr := y, z_attr := z\<rparr>)\<rparr>)"

text \<open>
  \<^verbatim>\<open>
  for index, atom in enumerate(atoms):
      atom._x, atom._y, atom._z = points[index]
  \<close>
  \<^verbatim>\<open>points[index]\<close> raises \<open>IndexError\<close> when \<open>points\<close> is too short; the atoms assigned
  before that keep their new coordinates.
\<close>

fun assign_points ::
    "'c heap \<Rightarrow> (nat \<times> ref) list \<Rightarrow> ('c \<times> 'c \<times> 'c) list \<Rightarrow> ('c, unit) outcome" where
  "assign_points h [] points = (h, Inr ())"
| "assign_points h ((index, atom) # rest) points =
     (if index < length points
      then assign_points (set_xyz h atom (points ! index)) rest points
      else (h, Inl IndexError))"


definition AtomicStructure_rotate ::
    "('c atom_obj list \<Rightarrow> pyval \<Rightarrow> 'n \<Rightarrow> error + ('c \<times> 'c \<times> 'c) list) \<Rightarrow>
     'c heap \<Rightarrow> AtomicStructure \<Rightarrow> pyval \<Rightarrow> 'n \<Rightarrow> ('c, unit) outcome" where
  "AtomicStructure_rotate geometrica_rotate h self axis angle =
     (let atoms = set_store h (atoms_attr self) in
      case geometrica_rotate (map (atom_store h) atoms) axis angle of
        Inl e \<Rightarrow> (h, Inl e)
      | Inr points \<Rightarrow> assign_points h (enumerate 0 atoms) points)"

text \<open>
  Modelled from the spec: what \<open>geometrica.rotate\<close> (an external library function, not
  among the sources) does with the axis. The spec and the docstring of \<open>rotate\<close> allow the
  axes \<open>x\<close>, \<open>y\<close> and \<open>z\<close> only; any other axis value fails with a \<open>ValueError\<close>.
\<close>

definition valid_axis :: "pyval \<Rightarrow> bool" where
  "valid_axis axis = (axis = PyStr ''x'' \<or> axis = PyStr ''y'' \<or> axis = PyStr ''z'')"

definition rejects_other_axes ::
    "('c atom_obj list \<Rightarrow> pyval \<Rightarrow> 'n \<Rightarrow> error + ('c \<times> 'c \<times> 'c) list) \<Rightarrow> bool" where
  "rejects_other_axes geometrica_rotate =
     (\<forall>atoms axis angle. \<not> valid_axis axis \<longrightarrow> geometrica_rotate atoms axis angle = Inl ValueError)"



subsection \<open>Observations\<close>

text \<open>
  What a caller sees of a returned set: the exception, or the members of the set object
  (two Python sets are equal when they have the same members, in whatever order).
\<close>

fun returned_set :: "('c, ref) outcome \<Rightarrow> error + ref set" where
  "returned_set (h, Inl e) = Inl e"
| "returned_set (h, Inr r) = Inr (set (set_store h r))"

text \<open>The members of a structure, in iteration order.\<close>

definition members :: "'c heap \<Rightarrow> AtomicStructure \<Rightarrow> ref list" where
  "members h self = set_store h (atoms_attr self)"

text \<open>A structure's backing set is an object of the store.\<close>

definition allocated :: "'c heap \<Rightarrow> AtomicStructure \<Rightarrow> bool" where
  "allocated h self = (atoms_attr self < set_next h)"

text \<open>No set object holds a member twice.\<close>

definition sets_distinct :: "'c heap \<Rightarrow> bool" where
  "sets_distinct h = (\<forall>r. distinct (set_store h r))"




text \<open>The float sum of a list has no rounding error: it is the exact sum of the items.\<close>

definition sums_exactly :: "double list \<Rightarrow> bool" where
  "sums_exactly xs = (dval (py_sum xs) = (\<Sum>x\<leftarrow>xs. dval x))"

text \<open>
  A store for examples: three atoms \<open>0\<close>, \<open>1\<close>, \<open>2\<close> of the elements C, H and O, after
  \<^verbatim>\<open>AtomicStructure(c, h, o)\<close>, \<^verbatim>\<open>AtomicStructure(c)\<close> and \<^verbatim>\<open>AtomicStructure(o, h)\<close>,
  whose backing sets are the set objects \<open>0\<close>, \<open>1\<close> and \<open>2\<close>.
\<close>

definition example_heap :: "int heap" where
  "example_heap =
     \<lparr>atom_store = (\<lambda>r. \<lparr>element_attr = (if r = 0 then ''C'' else if r = 1 then ''H'' else ''O''),
                          x_attr = int r, y_attr = 0, z_attr = 0\<rparr>),
      set_store = (\<lambda>r. if r = 0 then [0, 1, 2] else if r = 1 then [0] else if r = 2 then [2, 1] else []),
      set_next = 3\<rparr>"

definition example_structure :: AtomicStructure where
  "example_structure = \<lparr>atoms_attr = 0\<rparr>"




section \<open>The record parser\<close>

text \<open>
  Modelled from the spec: the class \<open>PdbRecord\<close> (module \<^verbatim>\<open>parsers/pdb/pdb_file.py\<close>) is
  not among the sources; only \<^verbatim>\<open>tests/parsers/pdb/test_pdb_records.py\<close> is. By the spec
  a line shorter than 80 characters is right-padded with spaces and a longer one is
  truncated to 80 characters; the record name is the first 6 characters without their
  trailing spaces; the contents are columns 7 to 80; the number is given by the caller.
\<close>

record PdbRecord =
  number_attr :: int
  name_attr :: string
  text_attr :: string
  contents_attr :: string

definition rstrip :: "string \<Rightarrow> string" where
  "rstrip s = rev (dropWhile (\<lambda>c. c = CHR '' '') (rev s))"

definition PdbRecord_init :: "string \<Rightarrow> int \<Rightarrow> PdbRecord" where
  "PdbRecord_init line number =
     (let padded = take 80 (line @ replicate (80 - length line) CHR '' '') in
      \<lparr>number_attr = number,
       name_attr = rstrip (take 6 padded),
       text_attr = padded,
       contents_attr = drop 6 padded\<rparr>)"

section \<open>The structure file\<close>

text \<open>
  Modelled from the spec: the class \<open>Pdb\<close> (module \<^verbatim>\<open>atomium/files/pdb.py\<close>) is not among
  the sources; only \<^verbatim>\<open>tests/unit/files_tests/test_pdbs.py\<close> is. By the spec the file
  holds its models, an optional code, an optional deposition date and an optional title;
  setting the code validates the type (a string) and the format (exactly 4 characters,
  the first one numeric), and a violation fails with a type error or a value error.
\<close>

record Pdb =
  models_attr :: "ref list"
  code_attr :: "string option"
  deposition_date_attr :: "(nat \<times> nat \<times> nat) option"
  title_attr :: "string option"

definition Pdb_init :: Pdb where
  "Pdb_init = \<lparr>models_attr = [], code_attr = None, deposition_date_attr = None, title_attr = None\<rparr>"

definition isdigit :: "char \<Rightarrow> bool" where
  "isdigit c = (c \<in> set ''0123456789'')"

definition valid_code :: "string \<Rightarrow> bool" where
  "valid_code s = (length s = 4 \<and> (case s of [] \<Rightarrow> False | c # cs \<Rightarrow> isdigit c))"

definition Pdb_code_get :: "Pdb \<Rightarrow> string option" where
  "Pdb_code_get pdb = code_attr pdb"

definition Pdb_code_set :: "Pdb \<Rightarrow> pyval \<Rightarrow> error + Pdb" where
  "Pdb_code_set pdb code =
     (case code of
        PyStr s \<Rightarrow> if valid_code s then Inr (pdb\<lparr>code_attr := Some s\<rparr>) else Inl ValueError
      | _ \<Rightarrow> Inl (TypeError code))"

section \<open>Construction\<close>

lemma atom_refs_map_PyAtom: "atom_refs (map PyAtom rs) = rs"
  by (induction rs) simp_all

lemma list_all_isinstance_map_PyAtom: "list_all isinstance_Atom (map PyAtom rs)"
  by (induction rs) simp_all

lemma filter_non_atoms_nonempty:
  "\<not> list_all isinstance_Atom vs \<Longrightarrow> filter (\<lambda>v. \<not> isinstance_Atom v) vs \<noteq> []"
  by (induction vs) auto

text \<open>A structure that the constructor returns is backed by a set object of the store,
  and that set holds no atom twice.\<close>

lemma init_allocated:
  "AtomicStructure_init h atoms = (h', Inr s) \<Longrightarrow> allocated h' s"
  by (auto simp add: AtomicStructure_init_def set_new_def allocated_def Let_def
        split: if_splits list.splits)

lemma init_members_distinct:
  "AtomicStructure_init h atoms = (h', Inr s) \<Longrightarrow> distinct (members h' s)"
  by (auto simp add: AtomicStructure_init_def set_new_def members_def Let_def
        split: if_splits list.splits)

lemma set_new_sets_distinct: "sets_distinct h \<Longrightarrow> sets_distinct (fst (set_new h xs))"
  by (simp add: sets_distinct_def set_new_def)

lemma set_add_sets_distinct: "sets_distinct h \<Longrightarrow> sets_distinct (set_add h s x)"
  by (simp add: sets_distinct_def set_add_def)

lemma set_remove_sets_distinct: "sets_distinct h \<Longrightarrow> sets_distinct (fst (set_remove h s x))"
  by (simp add: sets_distinct_def set_remove_def distinct_removeAll)

lemma example_sets_distinct: "sets_distinct example_heap"
  by (simp add: sets_distinct_def example_heap_def)

text \<open>The methods never free a set object, so a backing set stays an object of the store.\<close>

lemma atoms_keeps_allocated:
  "allocated h s \<Longrightarrow> allocated (fst (AtomicStructure_atoms h self element)) s"
  by (simp add: allocated_def AtomicStructure_atoms_def set_new_def)

lemma add_atom_keeps_allocated:
  "allocated h s \<Longrightarrow> allocated (fst (add_atom h self atom)) s"
  by (simp add: allocated_def add_atom_def set_add_def split: pyval.splits)

lemma remove_atom_keeps_allocated:
  "allocated h s \<Longrightarrow> allocated (fst (remove_atom h self atom)) s"
  by (simp add: allocated_def remove_atom_def set_remove_def split: pyval.splits)

lemma add_then_contains:
  "AtomicStructure_contains (fst (add_atom h self (PyAtom r))) self (PyAtom r)"
  by (simp add: AtomicStructure_contains_def add_atom_def set_add_def)

lemma remove_absent_KeyError:
  "\<not> AtomicStructure_contains h self (PyAtom r) \<Longrightarrow>
   remove_atom h self (PyAtom r) = (h, Inl (KeyError (PyAtom r)))"
  by (simp add: AtomicStructure_contains_def remove_atom_def set_remove_def)

text \<open>
  Claim C1, as the spec states it: constructing an \<open>AtomicStructure\<close> from zero atoms
  always fails with the dedicated empty-structure error. The constructor has no check of
  emptiness: \<^verbatim>\<open>all(...)\<close> over no arguments is true, so \<^verbatim>\<open>AtomicStructure()\<close> returns a
  structure. In the example store the call returns the structure backed by the new set
  object \<open>3\<close>, and raises nothing.
\<close>

theorem empty_construction_example:
  "snd (AtomicStructure_init example_heap []) = Inr \<lparr>atoms_attr = 3\<rparr> \<and>
   snd (AtomicStructure_init example_heap []) \<noteq> Inl NoAtomsError"
  by (simp add: AtomicStructure_init_def set_new_def example_heap_def)

text \<open>
  Claim C1, amended: constructing an \<open>AtomicStructure\<close> from zero atoms succeeds, in every
  store; it allocates a new set object, returns the structure backed by it, and that
  structure has no members.
\<close>

theorem empty_construction_succeeds:
  "AtomicStructure_init h [] = (fst (set_new h []), Inr \<lparr>atoms_attr = set_next h\<rparr>) \<and>
   members (fst (AtomicStructure_init h [])) \<lparr>atoms_attr = set_next h\<rparr> = []"
  by (simp add: AtomicStructure_init_def set_new_def members_def)

text \<open>
  Claim C3: construction checks every argument before the set of atoms is built. If even
  one argument is not an atom, the constructor raises a \<open>TypeError\<close> (naming a non-atom
  among the arguments), whatever the other arguments are, and the store is left as it
  was: no set object is allocated and no structure is returned.
\<close>

theorem init_rejects_any_non_atom:
  assumes "\<exists>v \<in> set atoms. \<not> isinstance_Atom v"
  shows "\<exists>v \<in> set atoms. \<not> isinstance_Atom v \<and>
           AtomicStructure_init h atoms = (h, Inl (TypeError v))"
proof -
  let ?non = "filter (\<lambda>v. \<not> isinstance_Atom v) atoms"
  from assms have na: "\<not> list_all isinstance_Atom atoms"
    by (simp add: list_all_iff)
  then have "?non \<noteq> []" by (rule filter_non_atoms_nonempty)
  then obtain v vs where eq: "?non = v # vs" by (cases ?non) auto
  then have "v \<in> set ?non" by simp
  then have "v \<in> set atoms" "\<not> isinstance_Atom v" by auto
  moreover have "AtomicStructure_init h atoms = (h, Inl (TypeError v))"
    using na eq by (simp add: AtomicStructure_init_def)
  ultimately show ?thesis by blast
qed

theorem init_rejects_any_non_atom_witness:
  "(\<exists>v \<in> set [PyAtom 0, PyStr ''Atom2'', PyAtom 1]. \<not> isinstance_Atom v) \<and>
   AtomicStructure_init example_heap [PyAtom 0, PyStr ''Atom2'', PyAtom 1]
     = (example_heap, Inl (TypeError (PyStr ''Atom2'')))"
  using init_rejects_any_non_atom [of "[PyAtom 0, PyStr ''Atom2'', PyAtom 1]" example_heap]
  by auto

section \<open>Retrieving the atoms\<close>

text \<open>
  Claim C4: for every non-empty collection \<open>rs\<close> of atoms, constructing a structure from
  them succeeds, and \<^verbatim>\<open>atoms()\<close> with no filter then returns a set whose members are
  exactly those atoms, whatever their order.
\<close>

theorem init_then_atoms:
  assumes "rs \<noteq> []"
  shows "case AtomicStructure_init h (map PyAtom rs) of
           (h1, Inl e) \<Rightarrow> False
         | (h1, Inr s) \<Rightarrow> returned_set (AtomicStructure_atoms h1 s PyNone) = Inr (set rs)"
  by (simp add: AtomicStructure_init_def list_all_isinstance_map_PyAtom atom_refs_map_PyAtom
        set_new_def AtomicStructure_atoms_def)

theorem init_then_atoms_witness:
  "[2, 0, 1 :: nat] \<noteq> [] \<and>
   (case AtomicStructure_init example_heap (map PyAtom [2, 0, 1]) of
      (h1, Inl e) \<Rightarrow> False
    | (h1, Inr s) \<Rightarrow> returned_set (AtomicStructure_atoms h1 s PyNone) = Inr (set [2, 0, 1]))"
proof -
  have ne: "[2, 0, 1 :: nat] \<noteq> []" by simp
  show ?thesis using ne init_then_atoms [OF ne, of example_heap] by (rule conjI)
qed

text \<open>
  Claim C2, as the spec states it: \<open>atoms\<close> with a selector that is not a string fails
  with a \<open>TypeError\<close>, and with a string outside \<open>pdb\<close>, \<open>generic\<close>, \<open>all\<close> it fails with a
  \<open>ValueError\<close>. The method has one parameter, \<open>element\<close>, which it does not validate:
  on the example structure \<^verbatim>\<open>atoms(1)\<close> and \<^verbatim>\<open>atoms("xyz")\<close> both return the empty set,
  and \<^verbatim>\<open>atoms(atom_type="xyz")\<close> raises the \<open>TypeError\<close> of an unknown keyword, not a
  \<open>ValueError\<close>.
\<close>

theorem atoms_selector_example:
  "returned_set (AtomicStructure_atoms example_heap example_structure (PyInt 1)) = Inr {} \<and>
   returned_set (AtomicStructure_atoms example_heap example_structure (PyStr ''xyz'')) = Inr {} \<and>
   returned_set (AtomicStructure_atoms_kw example_heap example_structure ''atom_type'' (PyStr ''xyz''))
     = Inl (TypeError (PyStr ''atom_type''))"
  by (simp add: AtomicStructure_atoms_def AtomicStructure_atoms_kw_def set_new_def
        example_heap_def example_structure_def Atom_element_def)

text \<open>
  Claim C2, amended: \<open>atoms\<close> takes one optional selector, \<open>element\<close>, and accepts every
  value for it, string or not, without an error: it returns all the atoms of the
  structure when the selector is false as a condition (\<open>None\<close>, the empty string, zero),
  and otherwise exactly the atoms whose element equals the selector. A selector passed
  under any other keyword than \<open>element\<close> fails with a \<open>TypeError\<close>, whatever its value,
  and leaves the store as it was.
\<close>

theorem atoms_selector_not_validated:
  "returned_set (AtomicStructure_atoms h self element) =
     Inr {a \<in> set (members h self). truthy element \<longrightarrow> PyStr (Atom_element h a) = element} \<and>
   (kw \<noteq> ''element'' \<longrightarrow>
     AtomicStructure_atoms_kw h self kw v = (h, Inl (TypeError (PyStr kw))))"
  by (auto simp add: AtomicStructure_atoms_def AtomicStructure_atoms_kw_def set_new_def
        members_def Atom_element_def)

theorem atoms_selector_not_validated_witness:
  "returned_set (AtomicStructure_atoms example_heap example_structure (PyStr ''H'')) = Inr {1} \<and>
   ''atom_type'' \<noteq> ''element'' \<and>
   AtomicStructure_atoms_kw example_heap example_structure ''atom_type'' (PyInt 1)
     = (example_heap, Inl (TypeError (PyStr ''atom_type'')))"
  using atoms_selector_not_validated
          [of example_heap example_structure "PyStr ''H''" "''atom_type''" "PyInt 1"]
  by (auto simp add: members_def example_heap_def example_structure_def Atom_element_def)

text \<open>
  Claim C10: \<open>atoms\<close> returns a new set object, not the set that backs the structure.
  For every structure whose backing set is an object of the store and every selector, the
  set object returned is another one than the backing set; the call itself, adding an
  element to the returned set, removing one from it, and replacing its contents
  altogether all leave the members of the structure as they were.
\<close>

theorem atoms_returns_fresh_set:
  assumes "allocated h self"
    and "AtomicStructure_atoms h self element = (h1, Inr r)"
  shows "r \<noteq> atoms_attr self \<and>
         members h1 self = members h self \<and>
         members (set_add h1 r x) self = members h self \<and>
         members (fst (set_remove h1 r x)) self = members h self \<and>
         members (h1\<lparr>set_store := (set_store h1)(r := xs)\<rparr>) self = members h self"
  using assms
  by (auto simp add: allocated_def AtomicStructure_atoms_def set_new_def members_def
        set_add_def set_remove_def split: if_splits)

theorem atoms_returns_fresh_set_witness:
  "allocated example_heap example_structure \<and>
   snd (AtomicStructure_atoms example_heap example_structure PyNone) = Inr 3 \<and>
   members (set_add (fst (AtomicStructure_atoms example_heap example_structure PyNone)) 3 7)
     example_structure = [0, 1, 2] \<and>
   members (fst (set_remove (fst (AtomicStructure_atoms example_heap example_structure PyNone)) 3 0))
     example_structure = [0, 1, 2]"
proof -
  let ?h1 = "fst (AtomicStructure_atoms example_heap example_structure PyNone)"
  have a: "allocated example_heap example_structure"
    by (simp add: allocated_def example_heap_def example_structure_def)
  have s: "snd (AtomicStructure_atoms example_heap example_structure PyNone) = Inr 3"
    by (simp add: AtomicStructure_atoms_def set_new_def example_heap_def example_structure_def)
  have r: "AtomicStructure_atoms example_heap example_structure PyNone = (?h1, Inr 3)"
    by (simp add: prod_eq_iff s)
  have m: "members example_heap example_structure = [0, 1, 2]"
    by (simp add: members_def example_heap_def example_structure_def)
  show ?thesis
    using a s m atoms_returns_fresh_set [OF a r, of 7 "[]"]
      atoms_returns_fresh_set [OF a r, of 0 "[]"]
    by simp
qed

section \<open>Rotation\<close>

text \<open>An exception of the library function reaches the caller before any atom is assigned.\<close>

lemma rotate_error_no_mutation:
  "geometrica_rotate (map (atom_store h) (members h self)) axis angle = Inl e \<Longrightarrow>
   AtomicStructure_rotate geometrica_rotate h self axis angle = (h, Inl e)"
  by (simp add: AtomicStructure_rotate_def members_def)

text \<open>
  Claim C7: for every structure, \<open>rotate\<close> with an axis that is not one of \<open>x\<close>, \<open>y\<close>,
  \<open>z\<close> fails with a \<open>ValueError\<close> and leaves the store, hence the coordinates of every
  atom, as it was. The \<open>ValueError\<close> is the one of the library function
  \<open>geometrica.rotate\<close>, which rejects such an axis; the method calls it before it assigns
  any coordinate.
\<close>

theorem rotate_invalid_axis:
  assumes "rejects_other_axes geometrica_rotate"
    and "\<not> valid_axis axis"
  shows "AtomicStructure_rotate geometrica_rotate h self axis angle = (h, Inl ValueError) \<and>
         atom_store (fst (AtomicStructure_rotate geometrica_rotate h self axis angle)) = atom_store h"
  using assms by (simp add: rejects_other_axes_def AtomicStructure_rotate_def)

theorem rotate_invalid_axis_witness:
  "rejects_other_axes (\<lambda>atoms axis (angle :: int).
       if valid_axis axis then Inr (map (\<lambda>a. (x_attr a, y_attr a, z_attr a)) atoms)
       else Inl ValueError :: error + (int \<times> int \<times> int) list) \<and>
   \<not> valid_axis (PyStr ''w'') \<and>
   AtomicStructure_rotate (\<lambda>atoms axis (angle :: int).
       if valid_axis axis then Inr (map (\<lambda>a. (x_attr a, y_attr a, z_attr a)) atoms)
       else Inl ValueError) example_heap example_structure (PyStr ''w'') 90
     = (example_heap, Inl ValueError)"
proof -
  let ?g = "\<lambda>atoms axis (angle :: int).
       if valid_axis axis then Inr (map (\<lambda>a. (x_attr a, y_attr a, z_attr a)) atoms)
       else Inl ValueError :: error + (int \<times> int \<times> int) list"
  have c: "rejects_other_axes ?g" by (simp add: rejects_other_axes_def)
  have a: "\<not> valid_axis (PyStr ''w'')" by (simp add: valid_axis_def)
  show ?thesis
    using c a rotate_invalid_axis [OF c a, of example_heap example_structure 90] by simp
qed

section \<open>Floating-point addition\<close>




lemma dval_shift:
  "real_of_int (q * 2 ^ k) * 2 powi e = real_of_int q * 2 powi (e + int k)"
  by (simp add: power_int_add)

lemma dval_round_to_double:
  assumes "k = nat (bitlen \<bar>M\<bar> - 53)"
  shows "dval (round_to_double M e) =
     (if bitlen \<bar>M\<bar> \<le> 53 then of_int M * 2 powi e
      else of_int (round_mantissa M k * 2 ^ k) * 2 powi e)"
proof (cases "bitlen \<bar>M\<bar> \<le> 53")
  case True
  then show ?thesis by (simp add: round_to_double_def dval_def)
next
  case False
  let ?q = "round_mantissa M k"
  show ?thesis
  proof (cases "\<bar>?q\<bar> = 2 ^ 53")
    case True
    then have "even \<bar>?q\<bar>" by simp
    then have "even ?q" by simp
    then obtain c where c: "?q = 2 * c" by (auto elim: evenE)
    have "dval (round_to_double M e) = of_int (?q div 2) * 2 powi (e + int k + 1)"
      using False True assms by (simp add: round_to_double_def dval_def Let_def)
    also have "\<dots> = of_int ?q * 2 powi (e + int k)"
      by (simp add: c power_int_add)
    finally show ?thesis using False by (simp only: dval_shift if_False)
  next
    case F2: False
    have "dval (round_to_double M e) = of_int ?q * 2 powi (e + int k)"
      using False F2 assms by (simp add: round_to_double_def dval_def Let_def)
    then show ?thesis using False by (simp only: dval_shift if_False)
  qed
qed


lemma bitlen_gt_53:
  assumes "\<not> bitlen \<bar>M\<bar> \<le> 53" and "k = nat (bitlen \<bar>M\<bar> - 53)"
  shows "2 ^ (k + 52) \<le> \<bar>M\<bar>"
proof -
  from assms(1) have pos: "\<bar>M\<bar> > 0" by (cases "M = 0") auto
  from bitlen_bounds [OF pos] have "2 ^ nat (bitlen \<bar>M\<bar> - 1) \<le> \<bar>M\<bar>" ..
  moreover from assms have "nat (bitlen \<bar>M\<bar> - 1) = k + 52" by simp
  ultimately show ?thesis by simp
qed


lemma round_exact:
  assumes eq: "real_of_int M * 2 powi e = real_of_int N * 2 powi g"
    and N: "\<bar>N\<bar> < 2 ^ 53"
  shows "dval (round_to_double M e) = of_int M * 2 powi e"
proof (cases "bitlen \<bar>M\<bar> \<le> 53")
  case True
  then show ?thesis by (simp add: dval_round_to_double [OF refl])
next
  case False
  define k where "k = nat (bitlen \<bar>M\<bar> - 53)"
  have big: "2 ^ (k + 52) \<le> \<bar>M\<bar>" using False k_def by (rule bitlen_gt_53)
  from eq have M: "real_of_int M = real_of_int N * 2 powi (g - e)"
    by (simp add: power_int_diff field_simps)
  have dvd: "2 ^ k dvd M"
  proof (cases "int k \<le> g - e")
    case True
    define n where "n = nat (g - e)"
    from True have n: "g - e = int n" and kn: "k \<le> n" by (simp_all add: n_def)
    from M have "real_of_int M = real_of_int (N * 2 ^ n)" unfolding n by simp
    then have "M = N * 2 ^ n" by (simp only: of_int_eq_iff)
    moreover from kn have "(2::int) ^ k dvd 2 ^ n" by (rule le_imp_power_dvd)
    ultimately show ?thesis by simp
  next
    case F: False
    then have "g - e \<le> int k - 1" by simp
    then have "(2::real) powi (g - e) \<le> 2 powi (int k - 1)"
      by (rule power_int_increasing) simp
    then have "\<bar>real_of_int N\<bar> * 2 powi (g - e) \<le> \<bar>real_of_int N\<bar> * 2 powi (int k - 1)"
      by (rule mult_left_mono) simp
    moreover from N have "\<bar>real_of_int N\<bar> < 2 ^ 53"
      by (metis of_int_abs of_int_less_iff of_int_numeral of_int_power)
    then have "\<bar>real_of_int N\<bar> * 2 powi (int k - 1) < 2 ^ 53 * 2 powi (int k - 1)"
      by (rule mult_strict_right_mono) simp
    moreover have "(2::real) ^ 53 * 2 powi (int k - 1) = 2 ^ (k + 52)"
      by (simp add: power_int_diff power_add)
    moreover from M have "\<bar>real_of_int M\<bar> = \<bar>real_of_int N\<bar> * 2 powi (g - e)"
      by (simp add: abs_mult)
    ultimately have "\<bar>real_of_int M\<bar> < 2 ^ (k + 52)" by linarith
    moreover from big have "real_of_int (2 ^ (k + 52)) \<le> real_of_int \<bar>M\<bar>"
      by (rule of_int_le_iff [THEN iffD2])
    ultimately show ?thesis by simp
  qed
  then have "M mod 2 ^ k = 0" by simp
  moreover have "(2::int) ^ k \<noteq> 0" by simp
  ultimately have "round_mantissa M k = M div 2 ^ k"
    by (simp add: round_mantissa_def Let_def)
  with dvd have "round_mantissa M k * 2 ^ k = M" by simp
  with False show ?thesis by (simp add: dval_round_to_double [OF k_def])
qed


lemma aligned_sum:
  "real_of_int (m1 * 2 ^ nat (e1 - min e1 e2) + m2 * 2 ^ nat (e2 - min e1 e2)) * 2 powi (min e1 e2)
     = dval (Double m1 e1) + dval (Double m2 e2)"
proof -
  let ?e = "min e1 e2"
  have a: "(2::real) ^ nat (e1 - ?e) * 2 powi ?e = 2 powi e1"
    by (simp add: power_int_add [symmetric] flip: power_int_of_nat)
  have b: "(2::real) ^ nat (e2 - ?e) * 2 powi ?e = 2 powi e2"
    by (simp add: power_int_add [symmetric] flip: power_int_of_nat)
  have "real_of_int (m1 * 2 ^ nat (e1 - ?e) + m2 * 2 ^ nat (e2 - ?e)) * 2 powi ?e
          = real_of_int m1 * (2 ^ nat (e1 - ?e) * 2 powi ?e) + real_of_int m2 * (2 ^ nat (e2 - ?e) * 2 powi ?e)"
    by (simp add: algebra_simps)
  then show ?thesis by (simp only: a b dval_def double.case)
qed


lemma fadd_exact:
  assumes "dval x + dval y = real_of_int N * 2 powi g" and "\<bar>N\<bar> < 2 ^ 53"
  shows "dval (fadd x y) = dval x + dval y"
proof -
  obtain m1 e1 where x: "x = Double m1 e1" by (cases x)
  obtain m2 e2 where y: "y = Double m2 e2" by (cases y)
  let ?M = "m1 * 2 ^ nat (e1 - min e1 e2) + m2 * 2 ^ nat (e2 - min e1 e2)"
  have "real_of_int ?M * 2 powi (min e1 e2) = real_of_int N * 2 powi g"
    using assms(1) unfolding x y by (simp only: aligned_sum)
  from round_exact [OF this assms(2)] show ?thesis
    unfolding x y by (simp only: aligned_sum fadd_def double.case Let_def)
qed


lemma fadd_commute: "fadd x y = fadd y x"
  by (cases x; cases y) (simp add: fadd_def Let_def min.commute add.commute)



section \<open>Translation\<close>










section \<open>Mass\<close>



text \<open>
  Nonnegative whole-number masses whose total is below \<open>2 ^ 53\<close> are summed exactly.
\<close>

lemma foldl_fadd_whole:
  assumes "\<forall>x \<in> set xs. \<exists>n. 0 \<le> n \<and> dval x = real_of_int n"
    and "0 \<le> k" and "dval a = real_of_int k"
    and "real_of_int k + (\<Sum>x\<leftarrow>xs. dval x) < 2 ^ 53"
  shows "dval (foldl fadd a xs) = dval a + (\<Sum>x\<leftarrow>xs. dval x)"
  using assms
proof (induction xs arbitrary: a k)
  case Nil
  then show ?case by simp
next
  case (Cons x xs)
  from Cons.prems(1) obtain n where n: "0 \<le> n" "dval x = real_of_int n" by auto
  have rest: "\<forall>y \<in> set xs. \<exists>n. 0 \<le> n \<and> dval y = real_of_int n"
    using Cons.prems(1) by simp
  have nonneg: "0 \<le> (\<Sum>y\<leftarrow>xs. dval y)"
    using rest by (intro sum_list_nonneg) auto
  have "real_of_int (k + n) < 2 ^ 53"
    using Cons.prems(4) nonneg n by simp
  then have "real_of_int (k + n) < real_of_int (2 ^ 53)" by simp
  then have "k + n < 2 ^ 53" by (rule of_int_less_iff [THEN iffD1])
  then have small: "\<bar>k + n\<bar> < 2 ^ 53"
    using Cons.prems(2) n(1) by simp
  have "dval a + dval x = real_of_int (k + n) * 2 powi 0"
    by (simp add: Cons.prems(3) n(2))
  from fadd_exact [OF this small] have step: "dval (fadd a x) = real_of_int (k + n)"
    by (simp add: Cons.prems(3) n(2))
  have "dval (foldl fadd (fadd a x) xs) = dval (fadd a x) + (\<Sum>y\<leftarrow>xs. dval y)"
  proof (rule Cons.IH [OF rest _ step])
    show "0 \<le> k + n" using Cons.prems(2) n(1) by simp
    show "real_of_int (k + n) + (\<Sum>y\<leftarrow>xs. dval y) < 2 ^ 53"
      using Cons.prems(4) n(2) by simp
  qed
  then show ?case by (simp add: step Cons.prems(3) n(2))
qed

lemma whole_numbers_sum_exactly:
  assumes "\<forall>x \<in> set xs. \<exists>n. 0 \<le> n \<and> dval x = real_of_int n"
    and "(\<Sum>x\<leftarrow>xs. dval x) < 2 ^ 53"
  shows "sums_exactly xs"
proof -
  have zero: "dval (Double 0 0) = real_of_int 0" by (simp add: dval_def)
  have "real_of_int 0 + (\<Sum>x\<leftarrow>xs. dval x) < 2 ^ 53" using assms(2) by simp
  from foldl_fadd_whole [OF assms(1) order_refl zero this] show ?thesis
    by (simp add: sums_exactly_def py_sum_def zero)
qed




section \<open>Records and the structure file\<close>

lemma PdbRecord_init_test_line:
  "name_attr (PdbRecord_init ''TEST   123  123.8    HYT'' 23) = ''TEST'' \<and>
   number_attr (PdbRecord_init ''TEST   123  123.8    HYT'' 23) = 23"
  by (simp add: PdbRecord_init_def Let_def rstrip_def)

text \<open>
  Claim C5: parsing one line of any length (so of every length from 0 to 80, and longer)
  gives a record whose text has exactly 80 characters, the line cut at 80 characters and
  then padded on the right with spaces, and whose contents, the text from its seventh
  character on, have exactly 74 characters.
\<close>

theorem PdbRecord_fixed_lengths:
  "length (text_attr (PdbRecord_init line number)) = 80 \<and>
   length (contents_attr (PdbRecord_init line number)) = 74 \<and>
   text_attr (PdbRecord_init line number) = take 80 line @ replicate (80 - length line) CHR '' '' \<and>
   contents_attr (PdbRecord_init line number) = drop 6 (text_attr (PdbRecord_init line number))"
proof -
  let ?padded = "take 80 (line @ replicate (80 - length line) CHR '' '')"
  have len: "length ?padded = 80" by (simp add: min_def)
  have t: "text_attr (PdbRecord_init line number) = ?padded"
    and c: "contents_attr (PdbRecord_init line number) = drop 6 ?padded"
    unfolding PdbRecord_init_def Let_def by simp_all
  have "length (drop 6 ?padded) = 74" unfolding length_drop len by simp
  moreover have "?padded = take 80 line @ replicate (80 - length line) CHR '' ''" by simp
  ultimately show ?thesis unfolding t c using len by simp
qed

text \<open>
  Claim C9: setting the code of a structure file to a value that is not a string fails
  with a \<open>TypeError\<close>; setting it to a string that does not have exactly 4 characters
  with a numeric first one fails with a \<open>ValueError\<close>, so for \<open>1abcd\<close>, \<open>abcd\<close> and
  \<open>1ab\<close>; setting it to \<open>1abc\<close> succeeds, and the code read back is then \<open>1abc\<close>.
\<close>

theorem Pdb_code_set_validates:
  "(\<not> (\<exists>s. v = PyStr s) \<longrightarrow> Pdb_code_set pdb v = Inl (TypeError v)) \<and>
   (\<not> (length s = 4 \<and> s \<noteq> [] \<and> isdigit (hd s)) \<longrightarrow> Pdb_code_set pdb (PyStr s) = Inl ValueError) \<and>
   Pdb_code_set pdb (PyStr ''1abcd'') = Inl ValueError \<and>
   Pdb_code_set pdb (PyStr ''abcd'') = Inl ValueError \<and>
   Pdb_code_set pdb (PyStr ''1ab'') = Inl ValueError \<and>
   Pdb_code_set pdb (PyStr ''1abc'') = Inr (pdb\<lparr>code_attr := Some ''1abc''\<rparr>) \<and>
   (Pdb_code_set pdb (PyStr ''1abc'') = Inr pdb' \<longrightarrow> Pdb_code_get pdb' = Some ''1abc'')"
  by (cases v; cases s)
    (auto simp add: Pdb_code_set_def valid_code_def isdigit_def Pdb_code_get_def)

theorem Pdb_code_set_validates_witness:
  "\<not> (\<exists>s. PyInt 100 = PyStr s) \<and> Pdb_code_set Pdb_init (PyInt 100) = Inl (TypeError (PyInt 100)) \<and>
   \<not> (length ''1xxxx'' = 4 \<and> ''1xxxx'' \<noteq> [] \<and> isdigit (hd ''1xxxx'')) \<and>
   Pdb_code_set Pdb_init (PyStr ''1xxxx'') = Inl ValueError \<and>
   Pdb_code_set Pdb_init (PyStr ''1abc'') = Inr (Pdb_init\<lparr>code_attr := Some ''1abc''\<rparr>) \<and>
   Pdb_code_get (Pdb_init\<lparr>code_attr := Some ''1abc''\<rparr>) = Some ''1abc''"
  using Pdb_code_set_validates
          [of "PyInt 100" Pdb_init "''1xxxx''" "Pdb_init\<lparr>code_attr := Some ''1abc''\<rparr>"]
  by simp

end
